theory Spec2Isabelle
  imports Main "HOL-Library.Finite_Map"
begin

section \<open>JavaScript values\<close>

text \<open>
  The provider of \<^verbatim>\<open>src/index.ts\<close> (class \<^verbatim>\<open>PostgresRecordProvider\<close>, the complete
  version of the file, lines 155 to 365) receives its records as values of type
  \<^verbatim>\<open>any\<close> and tests them dynamically, so the model has a type of JavaScript values.
  A record given to \<^verbatim>\<open>create\<close> or \<^verbatim>\<open>update\<close> is an object (type \<open>obj\<close>); the identifiers
  and names that the source types as strings are strings.

  \<^item> Numbers are modelled by the integers and \<open>JNaN\<close>; a number that is not an integer
    behaves in this program like any other non-zero number.
  \<^item> An object is a finite map from property names to values: two objects are equal
    exactly when they are deep-equal, whatever the order of their properties.
  \<^item> \<open>JSONText v\<close> is a string: the JSON text of the value \<open>v\<close>. Its characters are not
    modelled; it is what \<^verbatim>\<open>JSON.stringify\<close> returns, what the store's \<^verbatim>\<open>->>\<close> operator
    returns for a value that is not a string, and what \<^verbatim>\<open>JSON.parse\<close> reads.
    \<open>JStr s\<close> is a string given by its characters.
\<close>

datatype jsval =
    JUndefined
  | JNull
  | JBool bool
  | JNum int
  | JNaN
  | JStr string
  | JSONText jsval
  | JArr "jsval list"
  | JObj "(string, jsval) fmap"

type_synonym obj = "(string, jsval) fmap"

text \<open>Property read \<^verbatim>\<open>o.k\<close> on an object: \<^verbatim>\<open>undefined\<close> when the property is missing.\<close>

definition get_prop :: "obj \<Rightarrow> string \<Rightarrow> jsval" where
  "get_prop m k = (case fmlookup m k of None \<Rightarrow> JUndefined | Some v \<Rightarrow> v)"

text \<open>JavaScript's ToBoolean, as \<^verbatim>\<open>!record._id\<close> applies it.\<close>

fun truthy :: "jsval \<Rightarrow> bool" where
  "truthy JUndefined = False"
| "truthy JNull = False"
| "truthy (JBool b) = b"
| "truthy (JNum n) = (n \<noteq> 0)"
| "truthy JNaN = False"
| "truthy (JStr s) = (s \<noteq> [])"
| "truthy (JSONText v) = True"
| "truthy (JArr xs) = True"
| "truthy (JObj m) = True"

text \<open>\<^verbatim>\<open>typeof v === 'string'\<close>.\<close>

fun is_string :: "jsval \<Rightarrow> bool" where
  "is_string (JStr s) = True"
| "is_string (JSONText v) = True"
| "is_string v = False"

text \<open>
  \<open>jsonify v\<close> is the value that the JSON text written by \<^verbatim>\<open>JSON.stringify\<close> for \<open>v\<close>
  denotes: a property whose value is \<^verbatim>\<open>undefined\<close> is left out, \<^verbatim>\<open>undefined\<close> in an array
  and \<^verbatim>\<open>NaN\<close> become \<^verbatim>\<open>null\<close>. \<open>is_json v\<close> says that \<open>v\<close> is a JSON value already.
\<close>

primrec jsonify :: "jsval \<Rightarrow> jsval" where
  "jsonify JUndefined = JUndefined"
| "jsonify JNull = JNull"
| "jsonify (JBool b) = JBool b"
| "jsonify (JNum n) = JNum n"
| "jsonify JNaN = JNull"
| "jsonify (JStr s) = JStr s"
| "jsonify (JSONText v) = JSONText v"
| "jsonify (JArr xs) =
     JArr (map (\<lambda>x. if x = JUndefined then JNull else x) (map jsonify xs))"
| "jsonify (JObj m) =
     JObj (fmfilter (\<lambda>k. fmlookup (fmmap jsonify m) k \<noteq> Some JUndefined) (fmmap jsonify m))"

primrec is_json :: "jsval \<Rightarrow> bool" where
  "is_json JUndefined = False"
| "is_json JNull = True"
| "is_json (JBool b) = True"
| "is_json (JNum n) = True"
| "is_json JNaN = False"
| "is_json (JStr s) = True"
| "is_json (JSONText v) = True"
| "is_json (JArr xs) = list_all id (map is_json xs)"
| "is_json (JObj m) = fmpred (\<lambda>k b. b) (fmmap is_json m)"

text \<open>\<^verbatim>\<open>JSON.stringify(v)\<close>: a JSON text, or \<^verbatim>\<open>undefined\<close> for \<^verbatim>\<open>undefined\<close>.\<close>

definition JSON_stringify :: "jsval \<Rightarrow> jsval" where
  "JSON_stringify v = (case jsonify v of JUndefined \<Rightarrow> JUndefined | t \<Rightarrow> JSONText t)"

section \<open>Errors, query results and the query executor\<close>

text \<open>
  What \<^verbatim>\<open>pool.query\<close> rejects with: an error object, of which the program reads the
  property \<^verbatim>\<open>code\<close> only (\<open>None\<close>: no code, or a code that is not a string).
\<close>

record pg_error =
  code :: "string option"

text \<open>
  The errors an operation of the provider can end with. The message of an error of the
  provider is kept as the list of the operands that the source concatenates to build it;
  \<open>message_text\<close> is the message when every operand is a string given by its characters.
  \<open>StoreError ex\<close> is the rejection \<open>ex\<close> of \<^verbatim>\<open>pool.query\<close>, propagated unchanged.
\<close>

datatype error =
    ArgumentError "jsval list"
  | NotFoundError "jsval list"
  | ValidationError "jsval list"
  | StoreError pg_error
  | TypeError
  | SyntaxError

fun message_text :: "jsval list \<Rightarrow> string option" where
  "message_text [] = Some []"
| "message_text (JStr s # ps) = map_option (\<lambda>t. s @ t) (message_text ps)"
| "message_text (v # ps) = None"

text \<open>The \<^verbatim>\<open>QueryResult\<close> of the driver; a row is an object, column name to value.\<close>

record query_result =
  rowCount :: nat
  rows :: "obj list"
  command :: string
  oid :: nat
  fields_list :: "string list"

text \<open>
  The statements the provider issues, one constructor for each statement text of the
  source, with the interpolated collection name first and then the parameters:
  \<^item> \<open>SelectAll c\<close>: \<^verbatim>\<open>SELECT json FROM c\<close>
  \<^item> \<open>SelectById c p\<close>: \<^verbatim>\<open>SELECT json FROM c WHERE _id = $1\<close>
  \<^item> \<open>Insert c p1 p2\<close>: \<^verbatim>\<open>INSERT INTO c (json, _id) VALUES ($1, $2)\<close>
  \<^item> \<open>Upsert c p1 p2\<close>: the same with
    \<^verbatim>\<open>ON CONFLICT ON CONSTRAINT c__id_key DO UPDATE SET json = $1\<close>
  \<^item> \<open>Update c p1 p2\<close>: \<^verbatim>\<open>UPDATE c SET json = $1 WHERE _id = $2\<close>
  \<^item> \<open>Delete c p\<close>: \<^verbatim>\<open>DELETE FROM c WHERE _id = $1\<close>
  \<^item> \<open>CreateTable c\<close>: \<^verbatim>\<open>CREATE TABLE IF NOT EXISTS c (ID serial NOT NULL PRIMARY KEY,
    _id uuid NOT NULL UNIQUE, json jsonb NOT NULL)\<close>
  \<^item> \<open>DropAllTables\<close>: the \<^verbatim>\<open>DO\<close> block of \<^verbatim>\<open>deleteAll\<close>
  \<^item> \<open>SelectGroups u\<close>: \<^verbatim>\<open>SELECT json ->> '_id' AS id, json ->> 'name' AS name,
    json ->> 'roles' as roles FROM groups WHERE json->'members' @> $1\<close>, where \<^verbatim>\<open>$1\<close> is
    \<open>u\<close> between double quotes
  \<^item> \<open>SelectRoles u ids\<close>: \<^verbatim>\<open>SELECT json ->> 'name' AS role, json ->> 'permissions' AS
    permissions FROM roles WHERE json->'users' @> $1 OR _id = ANY ($2)\<close>, \<^verbatim>\<open>$1\<close> as above
  \<^item> \<open>SelectPermissions ids\<close>: \<^verbatim>\<open>SELECT json ->> 'name' AS name FROM permissions WHERE
    _id = ANY ($1)\<close>
\<close>

datatype stmt =
    SelectAll string
  | SelectById string jsval
  | Insert string jsval jsval
  | Upsert string jsval jsval
  | Update string jsval jsval
  | Delete string jsval
  | CreateTable string
  | DropAllTables
  | SelectGroups string
  | SelectRoles string jsval
  | SelectPermissions jsval

text \<open>
  The connection pool and the store behind it are not part of the repository:
  \<^verbatim>\<open>pool.query\<close> is a parameter of the model, a function from a statement and the state
  of the store to a result or a rejection and the next state. The world of the provider
  is that state and the lines written to the console.
\<close>

type_synonym 's executor = "stmt \<Rightarrow> 's \<Rightarrow> (pg_error + query_result) \<times> 's"

record 's world =
  store :: 's
  console :: "string list"

definition pool_query ::
  "'s executor \<Rightarrow> stmt \<Rightarrow> 's world \<Rightarrow> (pg_error + query_result) \<times> 's world" where
  "pool_query q st w = (case q st (store w) of (r, s') \<Rightarrow> (r, w\<lparr>store := s'\<rparr>))"

definition console_warn :: "string \<Rightarrow> 's world \<Rightarrow> 's world" where
  "console_warn line w = w\<lparr>console := console w @ [line]\<rparr>"

section \<open>The provider\<close>

definition isMissingTableError :: "pg_error \<Rightarrow> bool" where
  "isMissingTableError ex = (code ex = Some ''42P01'')"

definition isAlreadyExistsError :: "pg_error \<Rightarrow> bool" where
  "isAlreadyExistsError ex = (code ex = Some ''23505'')"

definition emptyOnMissingTable :: "pg_error \<Rightarrow> pg_error + query_result" where
  "emptyOnMissingTable ex =
     (if \<not> isMissingTableError ex then Inl ex
      else Inr \<lparr>rowCount = 0, rows = [], command = [], oid = 0, fields_list = []\<rparr>)"

text \<open>\<^verbatim>\<open>promise.catch(handler)\<close> for a handler that does no query.\<close>

definition catch ::
  "(pg_error + query_result) \<times> 'w \<Rightarrow> (pg_error \<Rightarrow> pg_error + query_result) \<Rightarrow>
   (pg_error + query_result) \<times> 'w" where
  "catch p handler = (case p of (Inl ex, w) \<Rightarrow> (handler ex, w) | (Inr r, w) \<Rightarrow> (Inr r, w))"

text \<open>
  The constructor. \<^verbatim>\<open>new Pool({ connectionString })\<close> builds the pool object and opens no
  connection; the provider is modelled by the descriptor its pool was built from.
\<close>

record provider =
  pool :: jsval

definition constructor :: "jsval \<Rightarrow> error + provider" where
  "constructor connectionString =
     (if connectionString = JNull \<or> connectionString = JUndefined
      then Inl (ArgumentError [JStr ''Must provide a connectionString''])
      else if \<not> is_string connectionString
      then Inl (ArgumentError
             [JStr ''The provided connectionString is invalid: '', connectionString])
      else Inr \<lparr>pool = connectionString\<rparr>)"

definition getAll ::
  "'s executor \<Rightarrow> string \<Rightarrow> 's world \<Rightarrow> (error + jsval list) \<times> 's world" where
  "getAll q collectionName w =
     (case catch (pool_query q (SelectAll collectionName) w) emptyOnMissingTable of
        (Inl ex, w') \<Rightarrow> (Inl (StoreError ex), w')
      | (Inr result, w') \<Rightarrow> (Inr (map (\<lambda>row. get_prop row ''json'') (rows result)), w'))"

definition not_found :: "string \<Rightarrow> string \<Rightarrow> error" where
  "not_found identifier collectionName =
     NotFoundError [JStr ''The record '', JStr identifier, JStr '' in '',
                    JStr collectionName, JStr '' does not exist.'']"

definition get ::
  "'s executor \<Rightarrow> string \<Rightarrow> string \<Rightarrow> 's world \<Rightarrow> (error + jsval) \<times> 's world" where
  "get q collectionName identifier w =
     (case catch (pool_query q (SelectById collectionName (JStr identifier)) w)
             emptyOnMissingTable of
        (Inl ex, w') \<Rightarrow> (Inl (StoreError ex), w')
      | (Inr result, w') \<Rightarrow>
          if rowCount result = 0 then (Inl (not_found identifier collectionName), w')
          else (case rows result of
                  [] \<Rightarrow> (Inl TypeError, w')
                | row # _ \<Rightarrow> (Inr (get_prop row ''json''), w')))"

definition race_warning :: "string \<Rightarrow> string" where
  "race_warning collectionName =
     ''Possible race condition error on creation of table '' @ collectionName @
     ''. It should be safe to continue.''"

definition createOnMissingTable ::
  "'s executor \<Rightarrow> pg_error \<Rightarrow> string \<Rightarrow>
   ('s world \<Rightarrow> (pg_error + query_result) \<times> 's world) \<Rightarrow>
   's world \<Rightarrow> (pg_error + query_result) \<times> 's world" where
  "createOnMissingTable q ex collectionName query w =
     (if \<not> isMissingTableError ex then (Inl ex, w)
      else (case pool_query q (CreateTable collectionName) w of
              (Inr _, w') \<Rightarrow> query w'
            | (Inl ex', w') \<Rightarrow>
                if code ex' = Some ''23505''
                then query (console_warn (race_warning collectionName) w')
                else (Inl ex', w')))"

text \<open>\<^verbatim>\<open>query().catch(ex => this.createOnMissingTable(ex, collectionName, query))\<close>.\<close>

definition catch_createOnMissingTable ::
  "'s executor \<Rightarrow> string \<Rightarrow> ('s world \<Rightarrow> (pg_error + query_result) \<times> 's world) \<Rightarrow>
   's world \<Rightarrow> (pg_error + query_result) \<times> 's world" where
  "catch_createOnMissingTable q collectionName query w =
     (case query w of
        (Inl ex, w') \<Rightarrow> createOnMissingTable q ex collectionName query w'
      | (Inr r, w') \<Rightarrow> (Inr r, w'))"

text \<open>
  \<open>create\<close> takes the value \<open>u\<close> that \<^verbatim>\<open>uuid.v4()\<close> returns when it is called. The source
  assigns the identifier into the caller's object (\<open>assign_identifier\<close>, the first
  statement of \<^verbatim>\<open>create\<close>); the model returns the object so changed when the operation
  succeeds. \<open>insert_stmt\<close>, \<open>upsert_stmt\<close> and \<open>update_stmt\<close> are the statements with
  their parameters \<^verbatim>\<open>[ JSON.stringify(record), record._id ]\<close>.
\<close>

definition assign_identifier :: "obj \<Rightarrow> string \<Rightarrow> obj" where
  "assign_identifier record u =
     (if \<not> truthy (get_prop record ''_id'') then fmupd ''_id'' (JStr u) record else record)"

definition insert_stmt :: "string \<Rightarrow> obj \<Rightarrow> stmt" where
  "insert_stmt collectionName record =
     Insert collectionName (JSON_stringify (JObj record)) (get_prop record ''_id'')"

definition upsert_stmt :: "string \<Rightarrow> obj \<Rightarrow> stmt" where
  "upsert_stmt collectionName record =
     Upsert collectionName (JSON_stringify (JObj record)) (get_prop record ''_id'')"

definition update_stmt :: "string \<Rightarrow> obj \<Rightarrow> stmt" where
  "update_stmt collectionName record =
     Update collectionName (JSON_stringify (JObj record)) (get_prop record ''_id'')"

definition already_exists :: "jsval \<Rightarrow> string \<Rightarrow> error" where
  "already_exists identifier collectionName =
     ValidationError [JStr ''The record '', identifier, JStr '' in '',
                      JStr collectionName, JStr '' already exists.'']"

definition create ::
  "'s executor \<Rightarrow> string \<Rightarrow> obj \<Rightarrow> string \<Rightarrow> 's world \<Rightarrow> (error + obj) \<times> 's world" where
  "create q collectionName record u w =
     (let record' = assign_identifier record u;
          query = pool_query q (insert_stmt collectionName record')
      in case catch_createOnMissingTable q collectionName query w of
           (Inl ex, w') \<Rightarrow>
             if isAlreadyExistsError ex
             then (Inl (already_exists (get_prop record' ''_id'') collectionName), w')
             else (Inl (StoreError ex), w')
         | (Inr _, w') \<Rightarrow> (Inr record', w'))"

definition update ::
  "'s executor \<Rightarrow> string \<Rightarrow> string \<Rightarrow> obj \<Rightarrow> bool \<Rightarrow> 's world \<Rightarrow>
   (error + obj) \<times> 's world" where
  "update q collectionName identifier record upsert w =
     (let record' = fmupd ''_id'' (JStr identifier) record
      in if upsert
         then (let query = pool_query q (upsert_stmt collectionName record')
               in case catch_createOnMissingTable q collectionName query w of
                    (Inl ex, w') \<Rightarrow> (Inl (StoreError ex), w')
                  | (Inr _, w') \<Rightarrow> (Inr record', w'))
         else (case catch (pool_query q (update_stmt collectionName record') w)
                      emptyOnMissingTable of
                 (Inl ex, w') \<Rightarrow> (Inl (StoreError ex), w')
               | (Inr result, w') \<Rightarrow>
                   if rowCount result = 0
                   then (Inl (not_found identifier collectionName), w')
                   else (Inr record', w')))"

definition delete ::
  "'s executor \<Rightarrow> string \<Rightarrow> string \<Rightarrow> 's world \<Rightarrow> (error + unit) \<times> 's world" where
  "delete q collectionName identifier w =
     (case pool_query q (Delete collectionName (JStr identifier)) w of
        (Inl ex, w') \<Rightarrow> (Inl (StoreError ex), w')
      | (Inr _, w') \<Rightarrow> (Inr (), w'))"

definition deleteAll :: "'s executor \<Rightarrow> 's world \<Rightarrow> (error + unit) \<times> 's world" where
  "deleteAll q w =
     (case pool_query q DropAllTables w of
        (Inl ex, w') \<Rightarrow> (Inl (StoreError ex), w')
      | (Inr _, w') \<Rightarrow> (Inr (), w'))"

text \<open>
  \<^verbatim>\<open>JSON.parse(v)\<close> for a value a row holds. A JSON text gives the value it denotes, and
  \<^verbatim>\<open>null\<close>, a boolean and a number are read through their string form. A string given by
  its characters is not parsed: the model answers \<open>SyntaxError\<close> for it (and for an array),
  which is what \<^verbatim>\<open>JSON.parse\<close> does unless the characters happen to be a JSON text.
\<close>

fun JSON_parse :: "jsval \<Rightarrow> error + jsval" where
  "JSON_parse (JSONText v) = Inr v"
| "JSON_parse JNull = Inr JNull"
| "JSON_parse (JBool b) = Inr (JBool b)"
| "JSON_parse (JNum n) = Inr (JNum n)"
| "JSON_parse v = Inl SyntaxError"

text \<open>\<^verbatim>\<open>xs.map(row => JSON.parse(...))\<close>: the first value that does not parse throws.\<close>

fun parse_all :: "jsval list \<Rightarrow> error + jsval list" where
  "parse_all [] = Inr []"
| "parse_all (v # vs) =
     (case JSON_parse v of
        Inl e \<Rightarrow> Inl e
      | Inr x \<Rightarrow> (case parse_all vs of Inl e \<Rightarrow> Inl e | Inr xs \<Rightarrow> Inr (x # xs)))"

text \<open>\<^verbatim>\<open>prev.concat(cur)\<close>: an array is spread, any other value is appended.\<close>

fun js_concat :: "jsval list \<Rightarrow> jsval \<Rightarrow> jsval list" where
  "js_concat prev (JArr cur) = prev @ cur"
| "js_concat prev cur = prev @ [cur]"

record user_data =
  groups :: "jsval list"
  roles :: "jsval list"
  permissions :: "jsval list"

definition getUserData ::
  "'s executor \<Rightarrow> string \<Rightarrow> 's world \<Rightarrow> (error + user_data) \<times> 's world" where
  "getUserData q userId w =
     (case pool_query q (SelectGroups userId) w of
        (Inl ex, w1) \<Rightarrow> (Inl (StoreError ex), w1)
      | (Inr groups_result, w1) \<Rightarrow>
     (case parse_all (map (\<lambda>row. get_prop row ''roles'') (rows groups_result)) of
        Inl e \<Rightarrow> (Inl e, w1)
      | Inr parsed_roles \<Rightarrow>
     (let rolesIds = foldl js_concat [] parsed_roles
      in case pool_query q (SelectRoles userId (JArr rolesIds)) w1 of
        (Inl ex, w2) \<Rightarrow> (Inl (StoreError ex), w2)
      | (Inr roles_result, w2) \<Rightarrow>
     (case parse_all (map (\<lambda>row. get_prop row ''permissions'') (rows roles_result)) of
        Inl e \<Rightarrow> (Inl e, w2)
      | Inr parsed_permissions \<Rightarrow>
     (let permissionIds = foldl js_concat [] parsed_permissions
      in case pool_query q (SelectPermissions (JArr permissionIds)) w2 of
        (Inl ex, w3) \<Rightarrow> (Inl (StoreError ex), w3)
      | (Inr permissions_result, w3) \<Rightarrow>
          (Inr \<lparr>groups = map (\<lambda>row. JObj (fmap_of_list
                               [(''_id'', get_prop row ''id''),
                                (''name'', get_prop row ''name'')]))
                          (rows groups_result),
                roles = map (\<lambda>row. get_prop row ''role'') (rows roles_result),
                permissions = map (\<lambda>row. get_prop row ''name'')
                                (rows permissions_result)\<rparr>, w3))))))"

section \<open>A reference store\<close>

text \<open>
  Modelled from the spec: the query executor (the pool of the \<^verbatim>\<open>pg\<close> driver and the
  relational engine behind it) is an external collaborator, of which the spec fixes the
  contract (sections 3 and 6): a collection is a table with a unique identifier column
  and a document column, a statement on a table that does not exist fails with the code
  \<^verbatim>\<open>42P01\<close>, and an insertion of an identifier that the table holds fails with the code
  \<^verbatim>\<open>23505\<close>. \<open>pg\<close> is a sequential store with this contract, reading each statement as
  its text says. It is used where a claim is about records that exist or tables that do
  not; every other result is proved for all executors.

  A table is the list of its rows in insertion order, a row the pair of the column
  \<^verbatim>\<open>_id\<close> and the column \<^verbatim>\<open>json\<close> (the serial column is the position). The column
  \<^verbatim>\<open>json\<close> holds the JSON value that the text it was given denotes; the order in which
  the store keeps the keys of an object is invisible in the model, as it is to deep
  equality. Identifiers are compared as strings: the syntax check of the column type
  \<^verbatim>\<open>uuid\<close> is not modelled, and the identifiers of the examples below are written as
  uuids. Collection names are taken to be plain identifiers of the store's language.
\<close>

type_synonym table = "(string \<times> jsval) list"
type_synonym database = "string \<rightharpoonup> table"

definition failure :: "string \<Rightarrow> pg_error + query_result" where
  "failure c = Inl \<lparr>code = Some c\<rparr>"

definition selected :: "obj list \<Rightarrow> pg_error + query_result" where
  "selected rs =
     Inr \<lparr>rowCount = length rs, rows = rs, command = ''SELECT'', oid = 0, fields_list = []\<rparr>"

definition affected :: "string \<Rightarrow> nat \<Rightarrow> pg_error + query_result" where
  "affected cmd n = Inr \<lparr>rowCount = n, rows = [], command = cmd, oid = 0, fields_list = []\<rparr>"

text \<open>
  A parameter as the store reads it for a column type: the value, the SQL null
  (\<^verbatim>\<open>null\<close> and \<^verbatim>\<open>undefined\<close> are sent as null), or a text the type refuses (code
  \<^verbatim>\<open>22P02\<close>).
\<close>

datatype 'a sqlarg = SqlNull | SqlValue 'a | SqlInvalid

fun uuid_arg :: "jsval \<Rightarrow> string sqlarg" where
  "uuid_arg (JStr s) = SqlValue s"
| "uuid_arg JNull = SqlNull"
| "uuid_arg JUndefined = SqlNull"
| "uuid_arg v = SqlInvalid"

fun jsonb_arg :: "jsval \<Rightarrow> jsval sqlarg" where
  "jsonb_arg (JSONText v) = SqlValue v"
| "jsonb_arg JNull = SqlNull"
| "jsonb_arg JUndefined = SqlNull"
| "jsonb_arg v = SqlInvalid"

text \<open>The elements of an array parameter compared with the column \<^verbatim>\<open>_id\<close>.\<close>

fun uuid_array :: "jsval list \<Rightarrow> string list option" where
  "uuid_array [] = Some []"
| "uuid_array (v # vs) =
     (case uuid_arg v of
        SqlInvalid \<Rightarrow> None
      | SqlNull \<Rightarrow> uuid_array vs
      | SqlValue i \<Rightarrow> map_option (\<lambda>is. i # is) (uuid_array vs))"

text \<open>
  \<open>quotable u\<close>: \<open>u\<close> between double quotes is the JSON text of the string \<open>u\<close> (no
  double quote, backslash or control character in it).
\<close>

definition quotable :: "string \<Rightarrow> bool" where
  "quotable u = list_all (\<lambda>ch. ch \<noteq> CHR 0x22 \<and> ch \<noteq> CHR 0x5C \<and> (32::nat) \<le> of_char ch) u"

text \<open>The operators \<^verbatim>\<open>json -> k\<close>, \<^verbatim>\<open>json ->> k\<close> and \<^verbatim>\<open>x @> "u"\<close> of the store.\<close>

fun json_field :: "jsval \<Rightarrow> string \<Rightarrow> jsval option" where
  "json_field (JObj m) k = fmlookup m k"
| "json_field v k = None"

definition json_field_text :: "jsval \<Rightarrow> string \<Rightarrow> jsval" where
  "json_field_text j k =
     (case json_field j k of
        None \<Rightarrow> JNull
      | Some JNull \<Rightarrow> JNull
      | Some (JStr s) \<Rightarrow> JStr s
      | Some v \<Rightarrow> JSONText v)"

fun contains_string :: "jsval option \<Rightarrow> string \<Rightarrow> bool" where
  "contains_string (Some (JArr xs)) u = (JStr u \<in> set xs)"
| "contains_string (Some (JStr s)) u = (s = u)"
| "contains_string x u = False"

definition json_row :: "string \<times> jsval \<Rightarrow> obj" where
  "json_row r = fmap_of_list [(''json'', snd r)]"

definition group_row :: "string \<times> jsval \<Rightarrow> obj" where
  "group_row r = fmap_of_list [(''id'', json_field_text (snd r) ''_id''),
                               (''name'', json_field_text (snd r) ''name''),
                               (''roles'', json_field_text (snd r) ''roles'')]"

definition role_row :: "string \<times> jsval \<Rightarrow> obj" where
  "role_row r = fmap_of_list [(''role'', json_field_text (snd r) ''name''),
                              (''permissions'', json_field_text (snd r) ''permissions'')]"

definition permission_row :: "string \<times> jsval \<Rightarrow> obj" where
  "permission_row r = fmap_of_list [(''name'', json_field_text (snd r) ''name'')]"

text \<open>The conditions of the three queries of \<^verbatim>\<open>getUserData\<close> on a row.\<close>

definition member_of :: "string \<Rightarrow> string \<times> jsval \<Rightarrow> bool" where
  "member_of u r = contains_string (json_field (snd r) ''members'') u"

definition role_of :: "string \<Rightarrow> string list \<Rightarrow> string \<times> jsval \<Rightarrow> bool" where
  "role_of u ids r = (contains_string (json_field (snd r) ''users'') u \<or> fst r \<in> set ids)"

definition listed :: "string list \<Rightarrow> string \<times> jsval \<Rightarrow> bool" where
  "listed ids r = (fst r \<in> set ids)"

definition has_id :: "string \<Rightarrow> string \<times> jsval \<Rightarrow> bool" where
  "has_id i r = (fst r = i)"

definition replace_json :: "string \<Rightarrow> jsval \<Rightarrow> table \<Rightarrow> table" where
  "replace_json i j t = map (\<lambda>r. if has_id i r then (i, j) else r) t"

fun pg :: "stmt \<Rightarrow> database \<Rightarrow> (pg_error + query_result) \<times> database" where
  "pg (SelectAll c) db =
     (case db c of
        None \<Rightarrow> (failure ''42P01'', db)
      | Some t \<Rightarrow> (selected (map json_row t), db))"
| "pg (SelectById c p) db =
     (case db c of
        None \<Rightarrow> (failure ''42P01'', db)
      | Some t \<Rightarrow>
          (case uuid_arg p of
             SqlInvalid \<Rightarrow> (failure ''22P02'', db)
           | SqlNull \<Rightarrow> (selected [], db)
           | SqlValue i \<Rightarrow> (selected (map json_row (filter (has_id i) t)), db)))"
| "pg (Insert c p1 p2) db =
     (case db c of
        None \<Rightarrow> (failure ''42P01'', db)
      | Some t \<Rightarrow>
          (case (jsonb_arg p1, uuid_arg p2) of
             (SqlInvalid, _) \<Rightarrow> (failure ''22P02'', db)
           | (_, SqlInvalid) \<Rightarrow> (failure ''22P02'', db)
           | (SqlNull, _) \<Rightarrow> (failure ''23502'', db)
           | (_, SqlNull) \<Rightarrow> (failure ''23502'', db)
           | (SqlValue j, SqlValue i) \<Rightarrow>
               if list_ex (has_id i) t then (failure ''23505'', db)
               else (affected ''INSERT'' 1, db(c \<mapsto> t @ [(i, j)]))))"
| "pg (Upsert c p1 p2) db =
     (case db c of
        None \<Rightarrow> (failure ''42P01'', db)
      | Some t \<Rightarrow>
          (case (jsonb_arg p1, uuid_arg p2) of
             (SqlInvalid, _) \<Rightarrow> (failure ''22P02'', db)
           | (_, SqlInvalid) \<Rightarrow> (failure ''22P02'', db)
           | (SqlNull, _) \<Rightarrow> (failure ''23502'', db)
           | (_, SqlNull) \<Rightarrow> (failure ''23502'', db)
           | (SqlValue j, SqlValue i) \<Rightarrow>
               if list_ex (has_id i) t
               then (affected ''INSERT'' 1, db(c \<mapsto> replace_json i j t))
               else (affected ''INSERT'' 1, db(c \<mapsto> t @ [(i, j)]))))"
| "pg (Update c p1 p2) db =
     (case db c of
        None \<Rightarrow> (failure ''42P01'', db)
      | Some t \<Rightarrow>
          (case (jsonb_arg p1, uuid_arg p2) of
             (SqlInvalid, _) \<Rightarrow> (failure ''22P02'', db)
           | (_, SqlInvalid) \<Rightarrow> (failure ''22P02'', db)
           | (_, SqlNull) \<Rightarrow> (affected ''UPDATE'' 0, db)
           | (SqlNull, SqlValue i) \<Rightarrow>
               if list_ex (has_id i) t then (failure ''23502'', db)
               else (affected ''UPDATE'' 0, db)
           | (SqlValue j, SqlValue i) \<Rightarrow>
               (affected ''UPDATE'' (length (filter (has_id i) t)),
                db(c \<mapsto> replace_json i j t))))"
| "pg (Delete c p) db =
     (case db c of
        None \<Rightarrow> (failure ''42P01'', db)
      | Some t \<Rightarrow>
          (case uuid_arg p of
             SqlInvalid \<Rightarrow> (failure ''22P02'', db)
           | SqlNull \<Rightarrow> (affected ''DELETE'' 0, db)
           | SqlValue i \<Rightarrow>
               (affected ''DELETE'' (length (filter (has_id i) t)),
                db(c \<mapsto> filter (\<lambda>r. \<not> has_id i r) t))))"
| "pg (CreateTable c) db =
     (case db c of
        None \<Rightarrow> (affected ''CREATE'' 0, db(c \<mapsto> []))
      | Some t \<Rightarrow> (affected ''CREATE'' 0, db))"
| "pg DropAllTables db = (affected ''DO'' 0, Map.empty)"
| "pg (SelectGroups u) db =
     (case db ''groups'' of
        None \<Rightarrow> (failure ''42P01'', db)
      | Some t \<Rightarrow>
          if \<not> quotable u then (failure ''22P02'', db)
          else (selected (map group_row (filter (member_of u) t)), db))"
| "pg (SelectRoles u ids) db =
     (case db ''roles'' of
        None \<Rightarrow> (failure ''42P01'', db)
      | Some t \<Rightarrow>
          if \<not> quotable u then (failure ''22P02'', db)
          else (case ids of
                  JArr vs \<Rightarrow>
                    (case uuid_array vs of
                       None \<Rightarrow> (failure ''22P02'', db)
                     | Some is \<Rightarrow>
                         (selected (map role_row (filter (role_of u is) t)), db))
                | _ \<Rightarrow> (failure ''22P02'', db)))"
| "pg (SelectPermissions ids) db =
     (case db ''permissions'' of
        None \<Rightarrow> (failure ''42P01'', db)
      | Some t \<Rightarrow>
          (case ids of
             JArr vs \<Rightarrow>
               (case uuid_array vs of
                  None \<Rightarrow> (failure ''22P02'', db)
                | Some is \<Rightarrow>
                    (selected (map permission_row (filter (listed is) t)), db))
           | _ \<Rightarrow> (failure ''22P02'', db)))"

section \<open>Notions used to state the properties\<close>

text \<open>
  \<open>traced q\<close> is the executor \<open>q\<close> that also records, in order, the statements it is
  given: \<open>issued w\<close> is that record and \<open>state w\<close> the state of \<open>q\<close> itself.
\<close>

definition traced :: "'s executor \<Rightarrow> ('s \<times> stmt list) executor" where
  "traced q st sl = (case q st (fst sl) of (r, s') \<Rightarrow> (r, (s', snd sl @ [st])))"

definition issued :: "('s \<times> stmt list) world \<Rightarrow> stmt list" where
  "issued w = snd (store w)"

definition state :: "('s \<times> stmt list) world \<Rightarrow> 's" where
  "state w = fst (store w)"

text \<open>
  The outcome of a statement counts as zero rows when it is a result with row count 0
  or a rejection with the missing-table code.
\<close>

definition zero_rows :: "pg_error + query_result \<Rightarrow> bool" where
  "zero_rows r = (case r of Inl ex \<Rightarrow> isMissingTableError ex | Inr res \<Rightarrow> rowCount res = 0)"

text \<open>
  The outcome of the table creation lets the protocol go on when it is a success or a
  rejection with the uniqueness-violation code.
\<close>

definition provisioned :: "pg_error + query_result \<Rightarrow> bool" where
  "provisioned r = (case r of Inl ex \<Rightarrow> code ex = Some ''23505'' | Inr res \<Rightarrow> True)"

text \<open>
  In the reference store: no record \<open>i\<close> in the collection \<open>c\<close>, because the table has
  never been created or because it holds no row with this identifier.
\<close>

definition absent :: "database \<Rightarrow> string \<Rightarrow> string \<Rightarrow> bool" where
  "absent db c i = (case db c of None \<Rightarrow> True | Some t \<Rightarrow> \<not> list_ex (has_id i) t)"

definition start :: "'s \<Rightarrow> 's world" where
  "start s = \<lparr>store = s, console = []\<rparr>"

text \<open>The rows of a collection of the reference store, none when it has no table.\<close>

definition table_of :: "database \<Rightarrow> string \<Rightarrow> table" where
  "table_of db c = (case db c of None \<Rightarrow> [] | Some t \<Rightarrow> t)"

text \<open>
  \<open>lists_ids k f rs\<close>: the document of every row \<open>r\<close> of \<open>rs\<close> has under the key \<open>k\<close> the
  array of the identifiers \<open>f r\<close>.
\<close>

definition lists_ids ::
  "string \<Rightarrow> (string \<times> jsval \<Rightarrow> string list) \<Rightarrow> table \<Rightarrow> bool" where
  "lists_ids k f rs = list_all (\<lambda>r. json_field (snd r) k = Some (JArr (map JStr (f r)))) rs"

text \<open>The name a query of \<^verbatim>\<open>getUserData\<close> returns for a row.\<close>

definition name_of :: "string \<times> jsval \<Rightarrow> jsval" where
  "name_of r = json_field_text (snd r) ''name''"

subsection \<open>Inputs of the examples\<close>

definition ann_id :: string where
  "ann_id = ''6f9619ff-8b86-4d01-b42d-00cf4fc964ff''"

definition ann :: obj where
  "ann = fmap_of_list [(''name'', JStr ''Ann''), (''tags'', JArr [JStr ''a'', JStr ''b''])]"

definition zero_doc :: obj where
  "zero_doc = fmap_of_list [(''_id'', JNum 0), (''name'', JStr ''Ann'')]"

text \<open>An executor that rejects every statement with the code of a lost connection.\<close>

definition unreachable :: "unit executor" where
  "unreachable st s = (failure ''08006'', s)"

text \<open>
  The reference store seen by a caller that loses the race for the creation of a
  table: its creation statement is rejected with the uniqueness-violation code, and the
  table is there afterwards.
\<close>

definition racing :: "database executor" where
  "racing st db =
     (case st of
        CreateTable c \<Rightarrow> (failure ''23505'', db(c \<mapsto> table_of db c))
      | _ \<Rightarrow> pg st db)"

text \<open>
  A store with two groups of the user \<^verbatim>\<open>auth0|ann\<close> that both reference the one role,
  which lists the one permission.
\<close>

definition admin_id :: string where
  "admin_id = ''3f2504e0-4f89-41d3-9a0c-0305e82c3301''"

definition read_id :: string where
  "read_id = ''7d444840-9dc0-11d1-b245-5ffdce74fad2''"

definition staff :: "string \<times> jsval" where
  "staff = (''1b4e28ba-2fa1-41d2-883f-0016d3cca427'',
            JObj (fmap_of_list [(''_id'', JStr ''1b4e28ba-2fa1-41d2-883f-0016d3cca427''),
                                (''name'', JStr ''staff''),
                                (''members'', JArr [JStr ''auth0|ann'']),
                                (''roles'', JArr [JStr admin_id])]))"

definition owners :: "string \<times> jsval" where
  "owners = (''c9bf9e57-1685-4c89-bafb-ff5af830be8a'',
             JObj (fmap_of_list [(''_id'', JStr ''c9bf9e57-1685-4c89-bafb-ff5af830be8a''),
                                 (''name'', JStr ''owners''),
                                 (''members'', JArr [JStr ''auth0|ann'', JStr ''auth0|bob'']),
                                 (''roles'', JArr [JStr admin_id])]))"

definition admin :: "string \<times> jsval" where
  "admin = (admin_id,
            JObj (fmap_of_list [(''_id'', JStr admin_id), (''name'', JStr ''admin''),
                                (''users'', JArr []),
                                (''permissions'', JArr [JStr read_id])]))"

definition read_records :: "string \<times> jsval" where
  "read_records = (read_id,
            JObj (fmap_of_list [(''_id'', JStr read_id), (''name'', JStr ''read:records'')]))"

definition auth_db :: database where
  "auth_db = [''groups'' \<mapsto> [staff, owners], ''roles'' \<mapsto> [admin],
              ''permissions'' \<mapsto> [read_records]]"

section \<open>Auxiliary facts\<close>

lemma JSON_stringify_obj: "JSON_stringify (JObj m) = JSONText (jsonify (JObj m))"
  by (simp add: JSON_stringify_def)

lemma get_prop_fmupd: "get_prop (fmupd k v m) k = v"
  by (simp add: get_prop_def)

lemma jsonb_arg_stringify: "jsonb_arg (JSON_stringify (JObj m)) = SqlValue (jsonify (JObj m))"
  by (simp add: JSON_stringify_obj)

lemma filter_has_id_empty: "\<not> list_ex (has_id i) t \<Longrightarrow> filter (has_id i) t = []"
  by (induction t) auto

lemma jsonify_id: "is_json v \<Longrightarrow> jsonify v = v"
proof (induction v)
  case (JArr xs)
  have "map jsonify xs = xs"
    using JArr by (auto simp: list_all_iff intro: map_idI)
  moreover have "map (\<lambda>x. if x = JUndefined then JNull else x) xs = xs"
    using JArr.prems by (fastforce simp: list_all_iff intro!: map_idI)
  ultimately show ?case by simp
next
  case (JObj m)
  have v: "is_json v" if "fmlookup m k = Some v" for k v
    using JObj.prems that by (auto simp: fmpred_iff)
  have 1: "fmmap jsonify m = m"
  proof (rule fmap_ext)
    fix k
    show "fmlookup (fmmap jsonify m) k = fmlookup m k"
    proof (cases "fmlookup m k")
      case None
      then show ?thesis by simp
    next
      case (Some x)
      then have "x \<in> fmran' m" by (rule fmran'I)
      then have "jsonify x = x" using JObj.IH v[OF Some] by simp
      then show ?thesis using Some by simp
    qed
  qed
  have 2: "fmfilter (\<lambda>k. fmlookup m k \<noteq> Some JUndefined) m = m"
  proof (rule fmap_ext)
    fix k
    show "fmlookup (fmfilter (\<lambda>k. fmlookup m k \<noteq> Some JUndefined) m) k = fmlookup m k"
      using v[of k] by (cases "fmlookup m k") auto
  qed
  show ?case by (simp add: 1 2)
qed simp_all

lemma is_json_fmupd:
  "is_json (JObj m) \<Longrightarrow> is_json v \<Longrightarrow> is_json (JObj (fmupd k v m))"
  by (auto simp: fmpred_iff)

subsection \<open>Traces of the provisioning protocol\<close>

lemma pool_query_traced:
  "q st (state w) = (r, s') \<Longrightarrow>
   pool_query (traced q) st w = (r, w\<lparr>store := (s', issued w @ [st])\<rparr>)"
  by (simp add: pool_query_def traced_def state_def issued_def)

lemma createOnMissingTable_traced:
  assumes "isMissingTableError ex"
      and "q (CreateTable c) (state w) = (r1, s1)"
      and "q st s1 = (r2, s2)"
  shows "createOnMissingTable (traced q) ex c (pool_query (traced q) st) w =
    (if provisioned r1
     then (r2, \<lparr>store = (s2, issued w @ [CreateTable c, st]),
                console = (case r1 of Inl _ \<Rightarrow> console w @ [race_warning c]
                                    | Inr _ \<Rightarrow> console w)\<rparr>)
     else (r1, \<lparr>store = (s1, issued w @ [CreateTable c]), console = console w\<rparr>))"
  using assms
  by (cases r1)
     (auto simp: createOnMissingTable_def pool_query_traced provisioned_def console_warn_def
        issued_def state_def)

lemma catch_createOnMissingTable_traced:
  assumes "q st (state w) = (Inl ex, s0)" and "isMissingTableError ex"
      and "q (CreateTable c) s0 = (r1, s1)"
      and "q st s1 = (r2, s2)"
  shows "catch_createOnMissingTable (traced q) c (pool_query (traced q) st) w =
    (if provisioned r1
     then (r2, \<lparr>store = (s2, issued w @ [st, CreateTable c, st]),
                console = (case r1 of Inl _ \<Rightarrow> console w @ [race_warning c]
                                    | Inr _ \<Rightarrow> console w)\<rparr>)
     else (r1, \<lparr>store = (s1, issued w @ [st, CreateTable c]), console = console w\<rparr>))"
proof -
  let ?w0 = "w\<lparr>store := (s0, issued w @ [st])\<rparr>"
  have 1: "pool_query (traced q) st w = (Inl ex, ?w0)"
    using assms(1) by (rule pool_query_traced)
  have 2: "state ?w0 = s0" "issued ?w0 = issued w @ [st]" "console ?w0 = console w"
    by (simp_all add: state_def issued_def)
  have "q (CreateTable c) (state ?w0) = (r1, s1)" using assms(3) 2 by simp
  from createOnMissingTable_traced[OF assms(2) this assms(4)] 2
  show ?thesis by (cases r1) (simp_all add: catch_createOnMissingTable_def 1)
qed

lemma catch_createOnMissingTable_first:
  "\<exists>rest. issued (snd (catch_createOnMissingTable (traced q) c (pool_query (traced q) st) w))
     = issued w @ st # rest"
proof -
  obtain r s' where 0: "q st (state w) = (r, s')" by (cases "q st (state w)")
  let ?w0 = "w\<lparr>store := (s', issued w @ [st])\<rparr>"
  have 1: "pool_query (traced q) st w = (r, ?w0)" using 0 by (rule pool_query_traced)
  show ?thesis
  proof (cases r)
    case (Inr res)
    then show ?thesis by (simp add: catch_createOnMissingTable_def 1 issued_def)
  next
    case (Inl ex)
    show ?thesis
    proof (cases "isMissingTableError ex")
      case False
      then show ?thesis
        by (simp add: catch_createOnMissingTable_def 1 Inl createOnMissingTable_def issued_def)
    next
      case True
      obtain r1 s1 where c: "q (CreateTable c) s' = (r1, s1)" by (cases "q (CreateTable c) s'")
      obtain r2 s2 where r: "q st s1 = (r2, s2)" by (cases "q st s1")
      show ?thesis
        using catch_createOnMissingTable_traced[OF 0[unfolded Inl] True c r]
        by (simp add: issued_def)
    qed
  qed
qed

subsection \<open>Outcomes of the reads and of the plain update\<close>

lemma get_outcome:
  "fst (get q c i w) =
     (case fst (q (SelectById c (JStr i)) (store w)) of
        Inl ex \<Rightarrow> if isMissingTableError ex then Inl (not_found i c) else Inl (StoreError ex)
      | Inr res \<Rightarrow>
          if rowCount res = 0 then Inl (not_found i c)
          else (case rows res of [] \<Rightarrow> Inl TypeError | row # _ \<Rightarrow> Inr (get_prop row ''json'')))"
  by (auto simp: get_def catch_def pool_query_def emptyOnMissingTable_def
        split: prod.splits sum.splits list.splits)

lemma update_outcome:
  "fst (update q c i record False w) =
     (case fst (q (update_stmt c (fmupd ''_id'' (JStr i) record)) (store w)) of
        Inl ex \<Rightarrow> if isMissingTableError ex then Inl (not_found i c) else Inl (StoreError ex)
      | Inr res \<Rightarrow>
          if rowCount res = 0 then Inl (not_found i c)
          else Inr (fmupd ''_id'' (JStr i) record))"
  by (auto simp: update_def catch_def pool_query_def emptyOnMissingTable_def Let_def
        split: prod.splits sum.splits list.splits)

lemma getAll_outcome:
  "fst (getAll q c w) =
     (case fst (q (SelectAll c) (store w)) of
        Inl ex \<Rightarrow> if isMissingTableError ex then Inr [] else Inl (StoreError ex)
      | Inr res \<Rightarrow> Inr (map (\<lambda>row. get_prop row ''json'') (rows res)))"
  by (auto simp: getAll_def catch_def pool_query_def emptyOnMissingTable_def
        split: prod.splits sum.splits list.splits)

lemma delete_outcome:
  "fst (delete q c i w) =
     (case fst (q (Delete c (JStr i)) (store w)) of
        Inl ex \<Rightarrow> Inl (StoreError ex)
      | Inr res \<Rightarrow> Inr ())"
  by (auto simp: delete_def pool_query_def split: prod.splits sum.splits)

lemma delete_pg_no_record:
  "db c = Some t \<Longrightarrow> \<not> list_ex (has_id i) t \<Longrightarrow>
   delete pg c i (start db) = (Inr (), start db)"
  by (simp add: delete_def pool_query_def start_def affected_def filter_has_id_empty
        list_ex_iff fun_upd_idem)

lemma pg_select_absent: "absent db c i \<Longrightarrow> zero_rows (fst (pg (SelectById c (JStr i)) db))"
  by (auto simp: absent_def zero_rows_def failure_def selected_def isMissingTableError_def
        filter_has_id_empty split: option.splits)

lemma pg_update_absent:
  "absent db c i \<Longrightarrow> zero_rows (fst (pg (update_stmt c (fmupd ''_id'' (JStr i) m)) db))"
  by (auto simp: absent_def zero_rows_def failure_def affected_def isMissingTableError_def
        filter_has_id_empty update_stmt_def get_prop_fmupd jsonb_arg_stringify
        split: option.splits)

subsection \<open>Writes on the reference store\<close>

lemma absent_filter: "absent db c i \<Longrightarrow> filter (has_id i) (table_of db c) = []"
  by (auto simp: absent_def table_of_def filter_has_id_empty split: option.splits)

lemma absent_list_ex: "absent db c i \<Longrightarrow> \<not> list_ex (has_id i) (table_of db c)"
  by (auto simp: absent_def table_of_def split: option.splits)

lemma pg_insert_fresh:
  assumes "absent db c i"
  shows "catch_createOnMissingTable pg c (pool_query pg (Insert c (JSONText j) (JStr i))) (start db)
         = (affected ''INSERT'' 1, start (db(c \<mapsto> table_of db c @ [(i, j)])))"
proof (cases "db c")
  case None
  then show ?thesis
    by (simp add: catch_createOnMissingTable_def pool_query_def start_def failure_def
          createOnMissingTable_def isMissingTableError_def affected_def table_of_def)
next
  case (Some t)
  then show ?thesis
    using absent_list_ex[OF assms]
    by (simp add: catch_createOnMissingTable_def pool_query_def start_def affected_def
          table_of_def)
qed

lemma pg_create_table_twice:
  "pg (CreateTable c) (snd (pg (CreateTable c) db)) =
     (affected ''CREATE'' 0, snd (pg (CreateTable c) db))"
  by (cases "db c") simp_all

lemma create_pg_fresh:
  assumes "get_prop (assign_identifier doc u) ''_id'' = JStr i" and "absent db c i"
  shows "create pg c doc u (start db) =
    (Inr (assign_identifier doc u),
     start (db(c \<mapsto> table_of db c @ [(i, jsonify (JObj (assign_identifier doc u)))])))"
  using assms(1) pg_insert_fresh[OF assms(2)]
  by (simp add: create_def insert_stmt_def JSON_stringify_obj affected_def Let_def
        del: jsonify.simps)

lemma create_pg_existing:
  assumes "get_prop (assign_identifier doc u) ''_id'' = JStr i"
      and "db c = Some t" and "list_ex (has_id i) t"
  shows "create pg c doc u (start db) = (Inl (already_exists (JStr i) c), start db)"
  using assms
  by (simp add: create_def insert_stmt_def JSON_stringify_obj catch_createOnMissingTable_def
        pool_query_def start_def failure_def createOnMissingTable_def isMissingTableError_def
        isAlreadyExistsError_def del: jsonify.simps)

lemma get_pg_last:
  assumes "filter (has_id i) t = []"
  shows "get pg c i (start (db(c \<mapsto> t @ [(i, j)]))) = (Inr j, start (db(c \<mapsto> t @ [(i, j)])))"
  using assms
  by (simp add: get_def catch_def pool_query_def start_def selected_def has_id_def
        json_row_def get_prop_def fmlookup_of_list)

lemma distinct_one_row:
  "distinct (map fst t) \<Longrightarrow> list_ex (has_id i) t \<Longrightarrow> length (filter (has_id i) t) = 1"
proof (induction t)
  case Nil
  then show ?case by simp
next
  case (Cons r t)
  show ?case
  proof (cases "has_id i r")
    case True
    then have "\<not> list_ex (has_id i) t"
      using Cons.prems(1) by (fastforce simp: has_id_def list_ex_iff image_iff)
    then show ?thesis using True by (simp add: filter_has_id_empty)
  next
    case False
    then show ?thesis using Cons by simp
  qed
qed

subsection \<open>Outcomes of the writes\<close>

lemma create_result:
  "fst (create q c doc u w) = Inr r \<Longrightarrow> r = assign_identifier doc u"
  by (auto simp: create_def Let_def split: prod.splits sum.splits if_splits)

lemma update_result:
  "fst (update q c i doc upsert w) = Inr r \<Longrightarrow> r = fmupd ''_id'' (JStr i) doc"
  by (auto simp: update_def Let_def split: prod.splits sum.splits if_splits)

lemma assign_identifier_frame:
  "fmdrop ''_id'' (assign_identifier doc u) = fmdrop ''_id'' doc"
  by (rule fmap_ext) (simp add: assign_identifier_def)

lemma assign_identifier_id:
  "get_prop (assign_identifier doc u) ''_id'' =
     (if truthy (get_prop doc ''_id'') then get_prop doc ''_id'' else JStr u)"
  by (simp add: assign_identifier_def get_prop_fmupd)

lemma create_world:
  "snd (create q c doc u w) =
   snd (catch_createOnMissingTable q c (pool_query q (insert_stmt c (assign_identifier doc u))) w)"
  by (auto simp: create_def Let_def split: prod.splits sum.splits)

lemma update_world:
  "snd (update q c i doc True w) =
   snd (catch_createOnMissingTable q c
          (pool_query q (upsert_stmt c (fmupd ''_id'' (JStr i) doc))) w)"
  by (auto simp: update_def Let_def split: prod.splits sum.splits)

lemma create_outcome:
  "fst (create q c doc u w) =
     (case fst (catch_createOnMissingTable q c
                  (pool_query q (insert_stmt c (assign_identifier doc u))) w) of
        Inl ex \<Rightarrow> Inl (if isAlreadyExistsError ex
                       then already_exists (get_prop (assign_identifier doc u) ''_id'') c
                       else StoreError ex)
      | Inr res \<Rightarrow> Inr (assign_identifier doc u))"
  by (auto simp: create_def Let_def split: prod.splits sum.splits)

lemma upsert_outcome:
  "fst (update q c i doc True w) =
     (case fst (catch_createOnMissingTable q c
                  (pool_query q (upsert_stmt c (fmupd ''_id'' (JStr i) doc))) w) of
        Inl ex \<Rightarrow> Inl (StoreError ex)
      | Inr res \<Rightarrow> Inr (fmupd ''_id'' (JStr i) doc))"
  by (auto simp: update_def Let_def split: prod.splits sum.splits)

lemma catch_createOnMissingTable_other:
  "fst (q st (store w)) = Inl ex \<Longrightarrow> \<not> isMissingTableError ex \<Longrightarrow>
   fst (catch_createOnMissingTable q c (pool_query q st) w) = Inl ex"
  by (auto simp: catch_createOnMissingTable_def pool_query_def createOnMissingTable_def
        split: prod.splits sum.splits)

lemma falsy_values:
  "(\<not> truthy v) = (v \<in> {JUndefined, JNull, JBool False, JNum 0, JNaN, JStr []})"
  by (cases v) auto

subsection \<open>The queries of getUserData on the reference store\<close>

lemma row_columns:
  "get_prop (group_row r) ''id'' = json_field_text (snd r) ''_id''"
  "get_prop (group_row r) ''name'' = name_of r"
  "get_prop (group_row r) ''roles'' = json_field_text (snd r) ''roles''"
  "get_prop (role_row r) ''role'' = name_of r"
  "get_prop (role_row r) ''permissions'' = json_field_text (snd r) ''permissions''"
  "get_prop (permission_row r) ''name'' = name_of r"
  by (simp_all add: group_row_def role_row_def permission_row_def get_prop_def
        fmlookup_of_list name_of_def)

lemma parse_all_ids:
  "lists_ids k f rs \<Longrightarrow>
   parse_all (map (\<lambda>r. json_field_text (snd r) k) rs) =
     Inr (map (\<lambda>r. JArr (map JStr (f r))) rs)"
  by (induction rs) (simp_all add: lists_ids_def json_field_text_def)

lemma foldl_js_concat_ids:
  "foldl js_concat acc (map (\<lambda>r. JArr (map JStr (f r))) rs) =
     acc @ map JStr (concat (map f rs))"
  by (induction rs arbitrary: acc) simp_all

lemma uuid_array_ids: "uuid_array (map JStr ids) = Some ids"
  by (induction ids) simp_all

lemma getUserData_pg:
  assumes "db ''groups'' = Some G" and "db ''roles'' = Some R"
      and "db ''permissions'' = Some P" and "quotable u"
      and "lists_ids ''roles'' role_ids (filter (member_of u) G)"
      and "rids = concat (map role_ids (filter (member_of u) G))"
      and "lists_ids ''permissions'' permission_ids (filter (role_of u rids) R)"
      and "pids = concat (map permission_ids (filter (role_of u rids) R))"
  shows "getUserData pg u (start db) =
    (Inr \<lparr>groups = map (\<lambda>r. JObj (fmap_of_list [(''_id'', json_field_text (snd r) ''_id''),
                                                  (''name'', name_of r)]))
                     (filter (member_of u) G),
          roles = map name_of (filter (role_of u rids) R),
          permissions = map name_of (filter (listed pids) P)\<rparr>, start db)"
proof -
  have 1: "pool_query pg (SelectGroups u) (start db) =
      (selected (map group_row (filter (member_of u) G)), start db)"
    using assms(1,4) by (simp add: pool_query_def start_def)
  have 3: "foldl js_concat [] (map (\<lambda>r. JArr (map JStr (role_ids r)))
              (filter (member_of u) G)) = map JStr rids"
    by (simp add: foldl_js_concat_ids assms(6))
  have 4: "pool_query pg (SelectRoles u (JArr (map JStr rids))) (start db) =
      (selected (map role_row (filter (role_of u rids) R)), start db)"
    using assms(2,4) by (simp add: pool_query_def start_def uuid_array_ids)
  have 6: "foldl js_concat [] (map (\<lambda>r. JArr (map JStr (permission_ids r)))
              (filter (role_of u rids) R)) = map JStr pids"
    by (simp add: foldl_js_concat_ids assms(8))
  have 7: "pool_query pg (SelectPermissions (JArr (map JStr pids))) (start db) =
      (selected (map permission_row (filter (listed pids) P)), start db)"
    using assms(3) by (simp add: pool_query_def start_def uuid_array_ids)
  show ?thesis
    by (simp add: getUserData_def 1 selected_def parse_all_ids [OF assms(5)] 3 4
          parse_all_ids [OF assms(7)] 6 7 o_def row_columns)
qed

lemma distinct_filter_id:
  "distinct (map fst t) \<Longrightarrow> r \<in> set t \<Longrightarrow> filter (has_id (fst r)) t = [r]"
proof (induction t)
  case Nil
  then show ?case by simp
next
  case (Cons x t)
  show ?case
  proof (cases "x = r")
    case True
    have "\<not> list_ex (has_id (fst r)) t"
      using Cons.prems(1) True by (fastforce simp: has_id_def list_ex_iff image_iff)
    moreover have "has_id (fst r) r" by (simp add: has_id_def)
    ultimately show ?thesis using True by (simp add: filter_has_id_empty)
  next
    case False
    then have "r \<in> set t" using Cons.prems(2) by simp
    moreover have "fst x \<noteq> fst r"
      using Cons.prems(1) \<open>r \<in> set t\<close> by (fastforce simp: image_iff)
    ultimately show ?thesis using Cons by (simp add: has_id_def)
  qed
qed

section \<open>The claims\<close>

subsection \<open>C1: delete on a collection that has no table\<close>

text \<open>
  C1 says that \<^verbatim>\<open>delete\<close> completes without an error when no record has the identifier
  and also when the table of the collection has never been created. The first part
  holds: \<^verbatim>\<open>delete\<close> looks at no row count (\<open>delete_outcome\<close>), and on a table without the
  record it succeeds and changes nothing (\<open>delete_pg_no_record\<close>). The second part fails:
  the source awaits the \<^verbatim>\<open>DELETE\<close> statement with no handler, where \<^verbatim>\<open>getAll\<close>, \<^verbatim>\<open>get\<close> and
  \<^verbatim>\<open>update\<close> attach \<^verbatim>\<open>emptyOnMissingTable\<close>, so on a store without the table the statement
  is rejected with the code \<^verbatim>\<open>42P01\<close> and \<^verbatim>\<open>delete\<close> ends with this rejection. The theorem
  evaluates \<^verbatim>\<open>delete\<close> on the reference store with no table at all.
\<close>

theorem delete_missing_table_raises:
  "delete pg ''users'' ''6f9619ff-8b86-4d01-b42d-00cf4fc964ff'' (start Map.empty) =
     (Inl (StoreError \<lparr>code = Some ''42P01''\<rparr>), start Map.empty)"
  by (simp add: delete_def pool_query_def start_def failure_def)

subsection \<open>C2: a role referenced by two groups\<close>

text \<open>
  C2, as the code has it. Let the user \<open>u\<close> belong to two groups \<open>g1\<close> and \<open>g2\<close> whose
  documents both list the role identifier \<open>rid\<close> in their \<^verbatim>\<open>roles\<close> arrays, and let \<open>r\<close> be
  the record of the collection \<^verbatim>\<open>roles\<close> with this identifier. On the reference store
  \<^verbatim>\<open>getUserData\<close> returns one name for each record of \<^verbatim>\<open>roles\<close> that the second query
  selects, and \<open>r\<close> is selected once however many groups list it: its name is returned
  once for it, not twice. The sequence of permissions contains the name of every record
  of \<^verbatim>\<open>permissions\<close> whose identifier the array \<^verbatim>\<open>permissions\<close> of \<open>r\<close> lists.
  The documents of the user's groups and roles are taken to list identifiers in these
  arrays (\<open>lists_ids\<close>), and identifiers are unique in \<^verbatim>\<open>roles\<close>.
\<close>

theorem getUserData_role_once:
  assumes "db ''groups'' = Some G" and "db ''roles'' = Some R"
      and "db ''permissions'' = Some P" and "quotable u"
      and "lists_ids ''roles'' role_ids (filter (member_of u) G)"
      and "rids = concat (map role_ids (filter (member_of u) G))"
      and "lists_ids ''permissions'' permission_ids (filter (role_of u rids) R)"
      and "g1 \<in> set G" and "g2 \<in> set G" and "g1 \<noteq> g2"
      and "member_of u g1" and "member_of u g2"
      and "rid \<in> set (role_ids g1)" and "rid \<in> set (role_ids g2)"
      and "r \<in> set R" and "fst r = rid" and "distinct (map fst R)"
  shows "\<exists>d. getUserData pg u (start db) = (Inr d, start db)
           \<and> roles d = map name_of (filter (role_of u rids) R)
           \<and> filter (has_id rid) (filter (role_of u rids) R) = [r]
           \<and> (\<forall>p\<in>set P. fst p \<in> set (permission_ids r) \<longrightarrow>
                 name_of p \<in> set (permissions d))"
proof -
  define pids where "pids = concat (map permission_ids (filter (role_of u rids) R))"
  let ?d = "\<lparr>groups = map (\<lambda>r. JObj (fmap_of_list [(''_id'', json_field_text (snd r) ''_id''),
                                                       (''name'', name_of r)]))
                          (filter (member_of u) G),
               roles = map name_of (filter (role_of u rids) R),
               permissions = map name_of (filter (listed pids) P)\<rparr>"
  have run: "getUserData pg u (start db) = (Inr ?d, start db)"
    using assms(1-7) pids_def by (rule getUserData_pg)
  have "g1 \<in> set (filter (member_of u) G)"
    using assms(8,11) by simp
  then have "rid \<in> set rids"
    unfolding assms(6) using assms(13) by (simp only: set_concat set_map) blast
  then have sel: "role_of u rids r"
    using assms(16) by (simp add: role_of_def)
  have "filter (has_id rid) (filter (role_of u rids) R) =
      filter (role_of u rids) (filter (has_id rid) R)"
    by (simp add: conj_commute)
  also have "\<dots> = [r]"
    using distinct_filter_id [OF assms(17,15)] sel by (simp add: assms(16))
  finally have once: "filter (has_id rid) (filter (role_of u rids) R) = [r]" .
  have perms: "name_of p \<in> set (permissions ?d)"
    if "p \<in> set P" "fst p \<in> set (permission_ids r)" for p
  proof -
    have "r \<in> set (filter (role_of u rids) R)"
      using sel assms(15) by simp
    then have "fst p \<in> set pids"
      unfolding pids_def using that(2) by (simp only: set_concat set_map) blast
    then show ?thesis using that(1) by (simp add: listed_def)
  qed
  show ?thesis
    using run once perms by (intro exI [of _ ?d]) simp
qed

theorem getUserData_role_once_witness:
  "\<exists>d. getUserData pg ''auth0|ann'' (start auth_db) = (Inr d, start auth_db)
        \<and> roles d = [JStr ''admin'']
        \<and> JStr ''read:records'' \<in> set (permissions d)"
proof -
  let ?u = "''auth0|ann''"
  have m: "member_of ?u staff" "member_of ?u owners"
    by (simp_all add: member_of_def staff_def owners_def fmlookup_of_list)
  have s: "role_of ?u [admin_id, admin_id] admin"
    by (simp add: role_of_def admin_def)
  have 1: "auth_db ''groups'' = Some [staff, owners]" "auth_db ''roles'' = Some [admin]"
      "auth_db ''permissions'' = Some [read_records]"
    by (simp_all add: auth_db_def)
  have 2: "quotable ?u" by (simp add: quotable_def)
  have 3: "lists_ids ''roles'' (\<lambda>g. [admin_id]) (filter (member_of ?u) [staff, owners])"
    by (simp add: m lists_ids_def staff_def owners_def fmlookup_of_list)
  have 4: "[admin_id, admin_id] =
      concat (map (\<lambda>g. [admin_id]) (filter (member_of ?u) [staff, owners]))"
    by (simp add: m)
  have 5: "lists_ids ''permissions'' (\<lambda>r. [read_id])
      (filter (role_of ?u [admin_id, admin_id]) [admin])"
    by (simp add: s lists_ids_def admin_def fmlookup_of_list)
  have 6: "staff \<noteq> owners" by (simp add: staff_def owners_def)
  have n: "name_of admin = JStr ''admin''" "name_of read_records = JStr ''read:records''"
    by (simp_all add: name_of_def json_field_text_def admin_def read_records_def
          fmlookup_of_list)
  have "\<exists>d. getUserData pg ?u (start auth_db) = (Inr d, start auth_db)
           \<and> roles d = map name_of (filter (role_of ?u [admin_id, admin_id]) [admin])
           \<and> filter (has_id admin_id) (filter (role_of ?u [admin_id, admin_id]) [admin]) =
               [admin]
           \<and> (\<forall>p\<in>set [read_records]. fst p \<in> set [read_id] \<longrightarrow>
                 name_of p \<in> set (permissions d))"
    by (rule getUserData_role_once [OF 1 2 3 4 5, where ?g1.0 = staff and ?g2.0 = owners])
       (simp_all add: 6 m, simp_all add: admin_def)
  moreover have "fst read_records = read_id" by (simp add: read_records_def)
  ultimately show ?thesis
    by (auto simp: s n)
qed

text \<open>
  The claim as written fails on the store \<open>auth_db\<close>: the user belongs to the groups
  \<open>staff\<close> and \<open>owners\<close>, both list the role \<open>admin\<close>, and the name of the role is returned
  once.
\<close>

theorem getUserData_role_not_twice:
  "fst (getUserData pg ''auth0|ann'' (start auth_db)) =
     Inr \<lparr>groups = [JObj (fmap_of_list [(''_id'', JStr ''1b4e28ba-2fa1-41d2-883f-0016d3cca427''),
                                         (''name'', JStr ''staff'')]),
                    JObj (fmap_of_list [(''_id'', JStr ''c9bf9e57-1685-4c89-bafb-ff5af830be8a''),
                                         (''name'', JStr ''owners'')])],
          roles = [JStr ''admin''],
          permissions = [JStr ''read:records'']\<rparr>"
  by (simp add: getUserData_def pool_query_def start_def auth_db_def staff_def owners_def
        admin_def read_records_def admin_id_def read_id_def selected_def quotable_def
        member_of_def role_of_def listed_def group_row_def role_row_def permission_row_def
        json_field_text_def get_prop_def fmlookup_of_list)

subsection \<open>C3: the argument check of the constructor\<close>

text \<open>
  C3, as the code has it. The constructor raises an invalid-argument error exactly when
  the connection descriptor is \<^verbatim>\<open>null\<close>, \<^verbatim>\<open>undefined\<close> or not a string; for every string,
  the empty string included, construction succeeds. The constructor is a function of
  the descriptor alone: it takes no world and returns none, so nothing is read from or
  written to the store before or after the check.
\<close>

theorem constructor_argument_check:
  "((\<exists>m. constructor cs = Inl (ArgumentError m)) =
      (cs = JNull \<or> cs = JUndefined \<or> \<not> is_string cs))
   \<and> (is_string cs \<longrightarrow> constructor cs = Inr \<lparr>pool = cs\<rparr>)"
  by (auto simp: constructor_def)

theorem constructor_argument_check_witness:
  "constructor (JStr ''postgres://app@localhost:5432/records'') =
     Inr \<lparr>pool = JStr ''postgres://app@localhost:5432/records''\<rparr>
   \<and> (\<exists>m. constructor (JNum 5432) = Inl (ArgumentError m))"
  using constructor_argument_check [of "JStr ''postgres://app@localhost:5432/records''"]
        constructor_argument_check [of "JNum 5432"]
  by simp

text \<open>
  The claim as written fails for the empty string: no check of the source looks at the
  length of the descriptor.
\<close>

theorem constructor_accepts_empty_string:
  "constructor (JStr []) = Inr \<lparr>pool = JStr []\<rparr>"
  by (simp add: constructor_def)

subsection \<open>C4: provisioning after a missing-table rejection\<close>

text \<open>
  C4. Let the statement \<open>st\<close> of a write be rejected with the missing-table code. The
  provider then issues the table creation for the collection. If the creation succeeds,
  or is rejected with the uniqueness-violation code (then one warning is written to the
  console and nothing is raised), \<open>st\<close> is issued once more and its outcome, a result or
  a rejection, is the outcome of the whole: the statements issued are \<open>st\<close>, the
  creation, \<open>st\<close>, and nothing else. If the creation is rejected with another code, that
  rejection is the outcome and \<open>st\<close> is not issued again. This holds for the insertion
  of \<^verbatim>\<open>create\<close> and for the statement of \<^verbatim>\<open>update\<close> with upsert; \<^verbatim>\<open>create\<close> then reports an
  outcome with the uniqueness-violation code as its validation error and \<^verbatim>\<open>update\<close>
  raises the rejection as it is. The statements issued are read from a tracing executor.
\<close>

theorem provisioning_on_missing_table:
  assumes "q st (state w) = (Inl ex, s0)" and "isMissingTableError ex"
      and "q (CreateTable c) s0 = (r1, s1)" and "q st s1 = (r2, s2)"
  shows "catch_createOnMissingTable (traced q) c (pool_query (traced q) st) w =
           (if provisioned r1
            then (r2, \<lparr>store = (s2, issued w @ [st, CreateTable c, st]),
                       console = (case r1 of Inl _ \<Rightarrow> console w @ [race_warning c]
                                           | Inr _ \<Rightarrow> console w)\<rparr>)
            else (r1, \<lparr>store = (s1, issued w @ [st, CreateTable c]), console = console w\<rparr>))
       \<and> (st = insert_stmt c (assign_identifier doc u) \<longrightarrow>
            issued (snd (create (traced q) c doc u w)) =
              issued w @ (if provisioned r1 then [st, CreateTable c, st]
                          else [st, CreateTable c])
            \<and> fst (create (traced q) c doc u w) =
              (case (if provisioned r1 then r2 else r1) of
                 Inl e \<Rightarrow> Inl (if isAlreadyExistsError e
                                then already_exists (get_prop (assign_identifier doc u) ''_id'') c
                                else StoreError e)
               | Inr res \<Rightarrow> Inr (assign_identifier doc u)))
       \<and> (st = upsert_stmt c (fmupd ''_id'' (JStr i) doc) \<longrightarrow>
            issued (snd (update (traced q) c i doc True w)) =
              issued w @ (if provisioned r1 then [st, CreateTable c, st]
                          else [st, CreateTable c])
            \<and> fst (update (traced q) c i doc True w) =
              (case (if provisioned r1 then r2 else r1) of
                 Inl e \<Rightarrow> Inl (StoreError e)
               | Inr res \<Rightarrow> Inr (fmupd ''_id'' (JStr i) doc)))"
proof -
  note chain = catch_createOnMissingTable_traced [OF assms]
  have 1: "issued (snd (catch_createOnMissingTable (traced q) c (pool_query (traced q) st) w)) =
      issued w @ (if provisioned r1 then [st, CreateTable c, st] else [st, CreateTable c])"
    by (simp add: chain issued_def)
  have 2: "fst (catch_createOnMissingTable (traced q) c (pool_query (traced q) st) w) =
      (if provisioned r1 then r2 else r1)"
    by (simp add: chain)
  have c1: "issued (snd (create (traced q) c doc u w)) =
      issued w @ (if provisioned r1 then [st, CreateTable c, st] else [st, CreateTable c])"
    if "st = insert_stmt c (assign_identifier doc u)"
    unfolding create_world that [symmetric] by (rule 1)
  have c2: "fst (create (traced q) c doc u w) =
      (case (if provisioned r1 then r2 else r1) of
         Inl e \<Rightarrow> Inl (if isAlreadyExistsError e
                        then already_exists (get_prop (assign_identifier doc u) ''_id'') c
                        else StoreError e)
       | Inr res \<Rightarrow> Inr (assign_identifier doc u))"
    if "st = insert_stmt c (assign_identifier doc u)"
    unfolding create_outcome that [symmetric] 2 by (rule refl)
  have u1: "issued (snd (update (traced q) c i doc True w)) =
      issued w @ (if provisioned r1 then [st, CreateTable c, st] else [st, CreateTable c])"
    if "st = upsert_stmt c (fmupd ''_id'' (JStr i) doc)"
    unfolding update_world that [symmetric] by (rule 1)
  have u2: "fst (update (traced q) c i doc True w) =
      (case (if provisioned r1 then r2 else r1) of
         Inl e \<Rightarrow> Inl (StoreError e)
       | Inr res \<Rightarrow> Inr (fmupd ''_id'' (JStr i) doc))"
    if "st = upsert_stmt c (fmupd ''_id'' (JStr i) doc)"
    unfolding upsert_outcome that [symmetric] 2 by (rule refl)
  show ?thesis
    using chain c1 c2 u1 u2 by blast
qed

theorem provisioning_on_missing_table_witness:
  "issued (snd (create (traced pg) ''users'' ann ann_id (start (Map.empty, [])))) =
     [insert_stmt ''users'' (fmupd ''_id'' (JStr ann_id) ann), CreateTable ''users'',
      insert_stmt ''users'' (fmupd ''_id'' (JStr ann_id) ann)]
   \<and> issued (snd (create (traced racing) ''users'' ann ann_id (start (Map.empty, [])))) =
     [insert_stmt ''users'' (fmupd ''_id'' (JStr ann_id) ann), CreateTable ''users'',
      insert_stmt ''users'' (fmupd ''_id'' (JStr ann_id) ann)]
   \<and> console (snd (catch_createOnMissingTable (traced racing) ''users''
        (pool_query (traced racing) (insert_stmt ''users'' (fmupd ''_id'' (JStr ann_id) ann)))
        (start (Map.empty, [])))) = [race_warning ''users'']"
proof -
  let ?doc = "fmupd ''_id'' (JStr ann_id) ann"
  let ?st = "insert_stmt ''users'' ?doc"
  let ?w = "start (Map.empty :: database, [] :: stmt list)"
  have a: "assign_identifier ann ann_id = ?doc"
    by (simp add: assign_identifier_def ann_def get_prop_def fmlookup_of_list)
  have st: "?st = Insert ''users'' (JSONText (jsonify (JObj ?doc))) (JStr ann_id)"
    by (simp add: insert_stmt_def JSON_stringify_obj get_prop_fmupd del: jsonify.simps)
  have w: "state ?w = Map.empty" "issued ?w = []" "console ?w = []"
    by (simp_all add: state_def issued_def start_def)
  have m: "isMissingTableError \<lparr>code = Some ''42P01''\<rparr>"
    by (simp add: isMissingTableError_def)
  have h1: "pg ?st (state ?w) = (Inl \<lparr>code = Some ''42P01''\<rparr>, Map.empty)"
    by (simp add: st w failure_def)
  have h3: "pg (CreateTable ''users'') Map.empty = (affected ''CREATE'' 0, [''users'' \<mapsto> []])"
    by simp
  have h4: "pg ?st [''users'' \<mapsto> []] =
      (fst (pg ?st [''users'' \<mapsto> []]), snd (pg ?st [''users'' \<mapsto> []]))"
    by simp
  have p: "provisioned (affected ''CREATE'' 0)"
    by (simp add: provisioned_def affected_def)
  have k1: "racing ?st (state ?w) = (Inl \<lparr>code = Some ''42P01''\<rparr>, Map.empty)"
    by (simp add: racing_def st w failure_def)
  have k3: "racing (CreateTable ''users'') Map.empty = (failure ''23505'', [''users'' \<mapsto> []])"
    by (simp add: racing_def table_of_def)
  have k4: "racing ?st [''users'' \<mapsto> []] =
      (fst (racing ?st [''users'' \<mapsto> []]), snd (racing ?st [''users'' \<mapsto> []]))"
    by simp
  have pk: "provisioned (failure ''23505'')"
    by (simp add: provisioned_def failure_def)
  have c: "(case (failure ''23505'' :: pg_error + query_result) of
              Inl x \<Rightarrow> console ?w @ [race_warning ''users''] | Inr x \<Rightarrow> console ?w)
           = [race_warning ''users'']"
    by (simp add: failure_def w)
  show ?thesis
    using provisioning_on_missing_table [OF h1 m h3 h4, where doc = ann and u = ann_id]
          provisioning_on_missing_table [OF k1 m k3 k4, where doc = ann and u = ann_id]
    by (simp add: a p pk w(2) c)
qed

subsection \<open>C5: not-found on zero rows\<close>

text \<open>
  C5. \<^verbatim>\<open>get\<close> and \<^verbatim>\<open>update\<close> without upsert raise a not-found error exactly when the
  outcome of their statement is zero rows (a result with row count 0, or the rejection
  of a statement on a table that does not exist); the error is then
  \<open>not_found i c\<close>, whose message is \<^verbatim>\<open>The record <i> in <c> does not exist.\<close>, the same
  value in both conditions. On the reference store both conditions, a table that was
  never created and a table without the record, give this error.
\<close>

theorem not_found_on_zero_rows:
  "((\<exists>m. fst (get q c i w) = Inl (NotFoundError m)) =
      zero_rows (fst (q (SelectById c (JStr i)) (store w))))
   \<and> ((\<exists>m. fst (update q c i doc False w) = Inl (NotFoundError m)) =
      zero_rows (fst (q (update_stmt c (fmupd ''_id'' (JStr i) doc)) (store w))))
   \<and> (zero_rows (fst (q (SelectById c (JStr i)) (store w))) \<longrightarrow>
        fst (get q c i w) = Inl (not_found i c))
   \<and> (zero_rows (fst (q (update_stmt c (fmupd ''_id'' (JStr i) doc)) (store w))) \<longrightarrow>
        fst (update q c i doc False w) = Inl (not_found i c))
   \<and> (\<exists>m. not_found i c = NotFoundError m \<and>
        message_text m = Some (''The record '' @ i @ '' in '' @ c @ '' does not exist.''))
   \<and> (absent db c i \<longrightarrow>
        fst (get pg c i (start db)) = Inl (not_found i c) \<and>
        fst (update pg c i doc False (start db)) = Inl (not_found i c))"
proof -
  have a: "(\<exists>m. fst (get q c i w) = Inl (NotFoundError m)) =
      zero_rows (fst (q (SelectById c (JStr i)) (store w)))"
    by (auto simp: get_outcome zero_rows_def not_found_def split: sum.splits list.splits)
  have b: "(\<exists>m. fst (update q c i doc False w) = Inl (NotFoundError m)) =
      zero_rows (fst (q (update_stmt c (fmupd ''_id'' (JStr i) doc)) (store w)))"
    by (auto simp: update_outcome zero_rows_def not_found_def split: sum.splits)
  have c: "fst (get q c i w) = Inl (not_found i c)"
    if "zero_rows (fst (q (SelectById c (JStr i)) (store w)))" for q :: "'c executor" and w
    using that by (auto simp: get_outcome zero_rows_def split: sum.splits)
  have d: "fst (update q c i doc False w) = Inl (not_found i c)"
    if "zero_rows (fst (q (update_stmt c (fmupd ''_id'' (JStr i) doc)) (store w)))"
    for q :: "'c executor" and w
    using that by (auto simp: update_outcome zero_rows_def split: sum.splits)
  have e: "\<exists>m. not_found i c = NotFoundError m \<and>
        message_text m = Some (''The record '' @ i @ '' in '' @ c @ '' does not exist.'')"
    by (simp add: not_found_def)
  have f: "fst (get pg c i (start db)) = Inl (not_found i c) \<and>
        fst (update pg c i doc False (start db)) = Inl (not_found i c)" if "absent db c i"
    using c[of pg "start db"] d[of pg "start db"] pg_select_absent[OF that]
      pg_update_absent[OF that] by (simp add: start_def)
  show ?thesis using a b c d e f by blast
qed

theorem not_found_on_zero_rows_witness:
  "fst (get pg ''users'' ann_id (start Map.empty)) = Inl (not_found ann_id ''users'')
   \<and> fst (update pg ''users'' ann_id ann False (start Map.empty)) =
       Inl (not_found ann_id ''users'')
   \<and> fst (get pg ''users'' ann_id (start [''users'' \<mapsto> []])) =
       Inl (not_found ann_id ''users'')
   \<and> fst (update pg ''users'' ann_id ann False (start [''users'' \<mapsto> []])) =
       Inl (not_found ann_id ''users'')"
  using not_found_on_zero_rows [where q = pg and db = "Map.empty" and c = "''users''"
          and i = ann_id and doc = ann and w = "start Map.empty"]
        not_found_on_zero_rows [where q = pg and db = "[''users'' \<mapsto> []]" and c = "''users''"
          and i = ann_id and doc = ann and w = "start Map.empty"]
  by (simp add: absent_def)

subsection \<open>C6: getAll on a collection that has no table\<close>

text \<open>
  C6. When the statement of \<^verbatim>\<open>getAll\<close> is rejected with the missing-table code, \<^verbatim>\<open>getAll\<close>
  returns the empty sequence; a rejection with any other code is raised unchanged. On
  the reference store a collection without a table gives the same answer as the
  collection with an empty table, and the store is left as it was.
\<close>

theorem getAll_empty_on_missing_table:
  "(fst (q (SelectAll c) (store w)) = Inl ex \<and> isMissingTableError ex \<longrightarrow>
      fst (getAll q c w) = Inr [])
   \<and> (fst (q (SelectAll c) (store w)) = Inl ex \<and> \<not> isMissingTableError ex \<longrightarrow>
      fst (getAll q c w) = Inl (StoreError ex))
   \<and> (db c = None \<longrightarrow>
      getAll pg c (start db) = (Inr [], start db) \<and>
      fst (getAll pg c (start (db(c \<mapsto> [])))) = fst (getAll pg c (start db)))"
  by (auto simp: getAll_outcome)
     (auto simp: getAll_def catch_def pool_query_def start_def failure_def
        emptyOnMissingTable_def isMissingTableError_def selected_def)

theorem getAll_empty_on_missing_table_witness:
  "getAll pg ''users'' (start Map.empty) = (Inr [], start Map.empty)
   \<and> fst (getAll pg ''users'' (start [''users'' \<mapsto> []])) = Inr []
   \<and> fst (getAll unreachable ''users'' (start ())) = Inl (StoreError \<lparr>code = Some ''08006''\<rparr>)"
  using getAll_empty_on_missing_table [where q = pg and db = "Map.empty" and c = "''users''"
          and w = "start Map.empty" and ex = "\<lparr>code = Some ''42P01''\<rparr>"]
        getAll_empty_on_missing_table [where q = unreachable and db = "Map.empty"
          and c = "''users''" and w = "start ()" and ex = "\<lparr>code = Some ''08006''\<rparr>"]
  by (simp add: unreachable_def failure_def isMissingTableError_def start_def)

subsection \<open>C7: create without an identifier, then get\<close>

text \<open>
  C7. For a document that is a JSON value and has no property \<^verbatim>\<open>_id\<close>, and a generated
  identifier \<open>u\<close> that the collection does not hold yet (the identifier is unique),
  \<^verbatim>\<open>create\<close> on the reference store returns the document with \<^verbatim>\<open>_id\<close> set to \<open>u\<close>, and
  \<^verbatim>\<open>get\<close> with \<open>u\<close> right afterwards returns an equal document. Equality of objects in
  the model is deep equality. The collection may have a table or not.
\<close>

theorem create_get_round_trip:
  assumes "fmlookup doc ''_id'' = None" and "is_json (JObj doc)" and "absent db c u"
  shows "\<exists>w'. create pg c doc u (start db) = (Inr (fmupd ''_id'' (JStr u) doc), w')
               \<and> get pg c u w' = (Inr (JObj (fmupd ''_id'' (JStr u) doc)), w')"
proof -
  let ?r = "fmupd ''_id'' (JStr u) doc"
  have a: "assign_identifier doc u = ?r"
    using assms(1) by (simp add: assign_identifier_def get_prop_def)
  have "is_json (JObj ?r)"
    using assms(2) by (intro is_json_fmupd) simp_all
  then have j: "jsonify (JObj ?r) = JObj ?r" by (rule jsonify_id)
  have "get_prop (assign_identifier doc u) ''_id'' = JStr u"
    by (simp add: a get_prop_fmupd)
  from create_pg_fresh[OF this assms(3)]
  have c: "create pg c doc u (start db) =
      (Inr ?r, start (db(c \<mapsto> table_of db c @ [(u, JObj ?r)])))"
    using j by (simp only: a)
  have "get pg c u (start (db(c \<mapsto> table_of db c @ [(u, JObj ?r)]))) =
      (Inr (JObj ?r), start (db(c \<mapsto> table_of db c @ [(u, JObj ?r)])))"
    by (rule get_pg_last) (rule absent_filter[OF assms(3)])
  with c show ?thesis by blast
qed

theorem create_get_round_trip_witness:
  "\<exists>w'. create pg ''users'' ann ann_id (start Map.empty) =
           (Inr (fmupd ''_id'' (JStr ann_id) ann), w')
         \<and> get pg ''users'' ann_id w' = (Inr (JObj (fmupd ''_id'' (JStr ann_id) ann)), w')"
proof -
  have 1: "fmlookup ann ''_id'' = None" by (simp add: ann_def fmlookup_of_list)
  have 2: "is_json (JObj ann)" by (auto simp: ann_def intro!: fmpred_upd)
  have 3: "absent Map.empty ''users'' ann_id" by (simp add: absent_def)
  show ?thesis using create_get_round_trip [OF 1 2 3] .
qed

subsection \<open>C8: create with an identifier that exists\<close>

text \<open>
  C8. When the insertion of \<^verbatim>\<open>create\<close> ends with a rejection, at the first attempt or
  after the table was provisioned, \<^verbatim>\<open>create\<close> raises the validation error
  \<open>already_exists\<close> for the identifier of the record and the collection if the code is
  the uniqueness violation, and the rejection itself, unchanged, for every other code.
  The message of the validation error is
  \<^verbatim>\<open>The record <i> in <c> already exists.\<close> On the reference store, for a record whose
  identifier a row of the collection holds, \<^verbatim>\<open>create\<close> raises this validation error and
  leaves the store as it was, with exactly one row at that identifier.
\<close>

theorem create_existing_identifier:
  "(fst (q (insert_stmt c (assign_identifier doc u)) (store w)) = Inl ex \<and>
      \<not> isMissingTableError ex \<longrightarrow>
      fst (create q c doc u w) =
        Inl (if isAlreadyExistsError ex
             then already_exists (get_prop (assign_identifier doc u) ''_id'') c
             else StoreError ex))
   \<and> (fst (catch_createOnMissingTable q c
             (pool_query q (insert_stmt c (assign_identifier doc u))) w) = Inl ex \<longrightarrow>
      fst (create q c doc u w) =
        Inl (if isAlreadyExistsError ex
             then already_exists (get_prop (assign_identifier doc u) ''_id'') c
             else StoreError ex))
   \<and> (\<exists>m. already_exists (JStr i) c = ValidationError m \<and>
        message_text m = Some (''The record '' @ i @ '' in '' @ c @ '' already exists.''))
   \<and> (get_prop doc ''_id'' = JStr i \<and> i \<noteq> [] \<and> db c = Some t \<and>
      distinct (map fst t) \<and> list_ex (has_id i) t \<longrightarrow>
      create pg c doc u (start db) = (Inl (already_exists (JStr i) c), start db) \<and>
      length (filter (has_id i) t) = 1)"
proof -
  have 1: "fst (create q c doc u w) =
        Inl (if isAlreadyExistsError ex
             then already_exists (get_prop (assign_identifier doc u) ''_id'') c
             else StoreError ex)"
    if "fst (catch_createOnMissingTable q c
             (pool_query q (insert_stmt c (assign_identifier doc u))) w) = Inl ex"
    using that by (simp add: create_outcome)
  have 2: "\<exists>m. already_exists (JStr i) c = ValidationError m \<and>
        message_text m = Some (''The record '' @ i @ '' in '' @ c @ '' already exists.'')"
    by (simp add: already_exists_def)
  have 3: "create pg c doc u (start db) = (Inl (already_exists (JStr i) c), start db)"
    if "get_prop doc ''_id'' = JStr i" "i \<noteq> []" "db c = Some t" "list_ex (has_id i) t"
  proof -
    have "get_prop (assign_identifier doc u) ''_id'' = JStr i"
      using that(1,2) by (simp add: assign_identifier_def)
    then show ?thesis using that(3,4) by (rule create_pg_existing)
  qed
  show ?thesis
    using 1 2 3 catch_createOnMissingTable_other [of q "insert_stmt c (assign_identifier doc u)" w ex c]
      distinct_one_row [of t i]
    by blast
qed

theorem create_existing_identifier_witness:
  "create pg ''users'' (fmupd ''_id'' (JStr ann_id) ann) ''16fd2706-8baf-433b-82eb-8c7fada847da''
     (start [''users'' \<mapsto> [(ann_id, JObj (fmupd ''_id'' (JStr ann_id) ann))]]) =
   (Inl (already_exists (JStr ann_id) ''users''),
    start [''users'' \<mapsto> [(ann_id, JObj (fmupd ''_id'' (JStr ann_id) ann))]])
   \<and> length (filter (has_id ann_id) [(ann_id, JObj (fmupd ''_id'' (JStr ann_id) ann))]) = 1"
proof -
  let ?doc = "fmupd ''_id'' (JStr ann_id) ann"
  let ?t = "[(ann_id, JObj ?doc)]"
  have h: "get_prop ?doc ''_id'' = JStr ann_id \<and> ann_id \<noteq> [] \<and>
      [''users'' \<mapsto> ?t] ''users'' = Some ?t \<and> distinct (map fst ?t) \<and>
      list_ex (has_id ann_id) ?t"
    by (simp add: get_prop_fmupd has_id_def ann_id_def)
  show ?thesis
    using h create_existing_identifier [where doc = ?doc and i = ann_id and c = "''users''"
          and db = "[''users'' \<mapsto> ?t]" and t = ?t
          and u = "''16fd2706-8baf-433b-82eb-8c7fada847da''"
          and q = pg and w = "start Map.empty" and ex = "\<lparr>code = None\<rparr>"]
    by blast
qed

subsection \<open>C9: a falsy identifier is replaced\<close>

text \<open>
  C9. The falsy values are \<^verbatim>\<open>undefined\<close> (also what a missing property reads as),
  \<^verbatim>\<open>null\<close>, \<^verbatim>\<open>false\<close>, \<^verbatim>\<open>0\<close>, \<^verbatim>\<open>NaN\<close> and the empty string. When the \<^verbatim>\<open>_id\<close> of the
  record is falsy, the first statement \<^verbatim>\<open>create\<close> issues is the insertion of the record
  with \<^verbatim>\<open>_id\<close> set to the generated identifier \<open>u\<close>, with \<open>u\<close> as its identifier
  parameter, and the record returned on success is that record; when it is truthy, the
  insertion carries the record and the identifier as supplied, and the record is
  returned as it was.
\<close>

theorem create_replaces_falsy_identifier:
  "((\<not> truthy v) = (v \<in> {JUndefined, JNull, JBool False, JNum 0, JNaN, JStr []}))
   \<and> (fmlookup doc ''_id'' = None \<longrightarrow> get_prop doc ''_id'' = JUndefined)
   \<and> (\<not> truthy (get_prop doc ''_id'') \<longrightarrow>
        (\<exists>rest. issued (snd (create (traced q) c doc u w)) =
           issued w @ Insert c (JSON_stringify (JObj (fmupd ''_id'' (JStr u) doc))) (JStr u) # rest)
        \<and> (fst (create q' c doc u w') = Inr r \<longrightarrow> r = fmupd ''_id'' (JStr u) doc))
   \<and> (truthy (get_prop doc ''_id'') \<longrightarrow>
        (\<exists>rest. issued (snd (create (traced q) c doc u w)) =
           issued w @ Insert c (JSON_stringify (JObj doc)) (get_prop doc ''_id'') # rest)
        \<and> (fst (create q' c doc u w') = Inr r \<longrightarrow> r = doc))"
proof -
  have first: "\<exists>rest. issued (snd (create (traced q) c doc u w)) =
      issued w @ insert_stmt c (assign_identifier doc u) # rest"
    unfolding create_world by (rule catch_createOnMissingTable_first)
  have falsy: "insert_stmt c (assign_identifier doc u) =
      Insert c (JSON_stringify (JObj (fmupd ''_id'' (JStr u) doc))) (JStr u)"
    if "\<not> truthy (get_prop doc ''_id'')"
    using that by (simp add: insert_stmt_def assign_identifier_def get_prop_fmupd
        del: jsonify.simps)
  have truthy: "insert_stmt c (assign_identifier doc u) =
      Insert c (JSON_stringify (JObj doc)) (get_prop doc ''_id'')"
    if "truthy (get_prop doc ''_id'')"
    using that by (simp add: insert_stmt_def assign_identifier_def)
  have res: "fst (create q' c doc u w') = Inr r \<longrightarrow> r = assign_identifier doc u"
    using create_result by blast
  have missing: "fmlookup doc ''_id'' = None \<longrightarrow> get_prop doc ''_id'' = JUndefined"
    by (simp add: get_prop_def)
  show ?thesis
  proof (cases "truthy (get_prop doc ''_id'')")
    case True
    then have a: "assign_identifier doc u = doc" by (simp add: assign_identifier_def)
    show ?thesis
      using True first[unfolded a truthy[OF True, unfolded a]] res[unfolded a] missing falsy_values[of v]
      by simp
  next
    case False
    then have a: "assign_identifier doc u = fmupd ''_id'' (JStr u) doc"
      by (simp add: assign_identifier_def)
    show ?thesis
      using False first[unfolded a falsy[OF False, unfolded a]] res[unfolded a] missing falsy_values[of v]
      by simp
  qed
qed

theorem create_replaces_falsy_identifier_witness:
  "(\<exists>rest. issued (snd (create (traced pg) ''users'' zero_doc ann_id (start (Map.empty, [])))) =
      Insert ''users'' (JSON_stringify (JObj (fmupd ''_id'' (JStr ann_id) zero_doc)))
        (JStr ann_id) # rest)
   \<and> (\<exists>rest. issued (snd (create (traced pg) ''users'' (fmupd ''_id'' (JStr ann_id) ann)
        ''16fd2706-8baf-433b-82eb-8c7fada847da'' (start (Map.empty, [])))) =
      Insert ''users'' (JSON_stringify (JObj (fmupd ''_id'' (JStr ann_id) ann)))
        (JStr ann_id) # rest)"
proof -
  have f: "\<not> truthy (get_prop zero_doc ''_id'')"
    by (simp add: zero_doc_def get_prop_def fmlookup_of_list)
  have t: "truthy (get_prop (fmupd ''_id'' (JStr ann_id) ann) ''_id'')"
    by (simp add: get_prop_fmupd ann_id_def)
  have i: "issued (start (Map.empty, [])) = []"
    by (simp add: issued_def start_def)
  show ?thesis
    using f t
      create_replaces_falsy_identifier [where doc = zero_doc and q = pg and c = "''users''"
          and u = ann_id and w = "start (Map.empty, [])"]
      create_replaces_falsy_identifier [where doc = "fmupd ''_id'' (JStr ann_id) ann"
          and q = pg and c = "''users''" and u = "''16fd2706-8baf-433b-82eb-8c7fada847da''"
          and w = "start (Map.empty, [])"]
    unfolding i get_prop_fmupd append_Nil by blast
qed

subsection \<open>C10: the returned document\<close>

text \<open>
  C10. Whenever \<^verbatim>\<open>create\<close> or \<^verbatim>\<open>update\<close> (with or without upsert) returns a document, it
  is the caller's document with at most the property \<^verbatim>\<open>_id\<close> changed: every other
  property is as supplied. After \<^verbatim>\<open>create\<close> the property \<^verbatim>\<open>_id\<close> is the supplied value if
  that is truthy and the generated identifier otherwise; after \<^verbatim>\<open>update\<close> it is the
  identifier given to the call.
\<close>

theorem returned_document_frame:
  "(fst (create q c doc u w) = Inr r \<longrightarrow>
      fmdrop ''_id'' r = fmdrop ''_id'' doc \<and>
      get_prop r ''_id'' =
        (if truthy (get_prop doc ''_id'') then get_prop doc ''_id'' else JStr u))
   \<and> (fst (update q c i doc upsert w) = Inr r' \<longrightarrow>
      fmdrop ''_id'' r' = fmdrop ''_id'' doc \<and> get_prop r' ''_id'' = JStr i)"
proof -
  have "fmdrop ''_id'' (fmupd ''_id'' (JStr i) doc) = fmdrop ''_id'' doc"
    by (rule fmap_ext) simp
  then show ?thesis
    by (auto dest!: create_result update_result
          simp: assign_identifier_frame assign_identifier_id get_prop_fmupd)
qed

theorem returned_document_frame_witness:
  "fst (create pg ''users'' ann ann_id (start Map.empty)) =
     Inr (fmupd ''_id'' (JStr ann_id) ann)
   \<and> fmdrop ''_id'' (fmupd ''_id'' (JStr ann_id) ann) = fmdrop ''_id'' ann
   \<and> fst (update pg ''users'' ann_id zero_doc True (start Map.empty)) =
     Inr (fmupd ''_id'' (JStr ann_id) zero_doc)
   \<and> fmdrop ''_id'' (fmupd ''_id'' (JStr ann_id) zero_doc) = fmdrop ''_id'' zero_doc"
proof -
  have a: "assign_identifier ann ann_id = fmupd ''_id'' (JStr ann_id) ann"
    by (simp add: assign_identifier_def ann_def get_prop_def fmlookup_of_list)
  have "absent Map.empty ''users'' ann_id" by (simp add: absent_def)
  then have c: "fst (create pg ''users'' ann ann_id (start Map.empty)) =
      Inr (fmupd ''_id'' (JStr ann_id) ann)"
    using create_pg_fresh [of ann ann_id ann_id Map.empty "''users''"]
    by (simp add: a get_prop_fmupd)
  have u: "fst (update pg ''users'' ann_id zero_doc True (start Map.empty)) =
      Inr (fmupd ''_id'' (JStr ann_id) zero_doc)"
    by (simp add: upsert_outcome upsert_stmt_def JSON_stringify_obj get_prop_fmupd
          catch_createOnMissingTable_def createOnMissingTable_def pool_query_def start_def
          failure_def affected_def isMissingTableError_def del: jsonify.simps)
  show ?thesis
    using c u
      returned_document_frame [where q = pg and c = "''users''" and doc = ann and u = ann_id
        and w = "start Map.empty" and r = "fmupd ''_id'' (JStr ann_id) ann"
        and i = ann_id and upsert = True and r' = "fmupd ''_id'' (JStr ann_id) ann"]
      returned_document_frame [where q = pg and c = "''users''" and doc = zero_doc
        and u = ann_id and w = "start Map.empty" and r = "fmupd ''_id'' (JStr ann_id) ann"
        and i = ann_id and upsert = True and r' = "fmupd ''_id'' (JStr ann_id) zero_doc"]
    by blast
qed

end
